theory Spec2Isabelle
  imports Main "HOL-Library.Monad_Syntax"
begin

section \<open>JavaScript strings\<close>

text \<open>
  Source texts are JavaScript strings. They are modelled as \<^typ>\<open>string\<close>: one
  \<^typ>\<open>char\<close> per code unit, for texts whose code units are below 256. Indices and
  lengths are those of the JavaScript string.
\<close>

definition squote :: char where "squote = CHR 0x27"
definition dquote :: char where "dquote = CHR 0x22"
definition btick :: char where "btick = CHR 0x60"
definition bslash :: char where "bslash = CHR 0x5C"
definition newline :: char where "newline = CHR 0x0A"

text \<open>
  The characters matched by \<^verbatim>\<open>\s\<close> and removed by \<^verbatim>\<open>trim()\<close>, among the code units
  below 256: TAB, LF, VT, FF, CR, SPACE and NBSP.
\<close>

definition isSpace :: "char \<Rightarrow> bool" where
  "isSpace c \<longleftrightarrow>
     c = CHR 0x09 \<or> c = CHR 0x0A \<or> c = CHR 0x0B \<or> c = CHR 0x0C \<or> c = CHR 0x0D \<or>
     c = CHR 0x20 \<or> c = CHR 0xA0"

definition trim :: "string \<Rightarrow> string" where
  "trim s = rev (dropWhile isSpace (rev (dropWhile isSpace s)))"

text \<open>
  \<^verbatim>\<open>s.substring(a, b)\<close>: both indices are clamped to the length and swapped when
  \<^verbatim>\<open>a > b\<close>. A negative index counts as 0, which natural subtraction gives for
  the only possibly negative argument of the source, \<^verbatim>\<open>length - 1\<close>.
\<close>

definition substring :: "string \<Rightarrow> nat \<Rightarrow> nat \<Rightarrow> string" where
  "substring s a b =
     (let a' = min a (length s); b' = min b (length s)
      in take (max a' b' - min a' b') (drop (min a' b') s))"

definition startsWith :: "string \<Rightarrow> string \<Rightarrow> bool" where
  "startsWith s p \<longleftrightarrow> take (length p) s = p"

definition endsWith :: "string \<Rightarrow> string \<Rightarrow> bool" where
  "endsWith s p \<longleftrightarrow> length p \<le> length s \<and> drop (length s - length p) s = p"

fun strIncludes :: "string \<Rightarrow> string \<Rightarrow> bool" where
  "strIncludes [] p = (p = [])"
| "strIncludes (c # cs) p = (startsWith (c # cs) p \<or> strIncludes cs p)"

fun join :: "string \<Rightarrow> string list \<Rightarrow> string" where
  "join sep [] = []"
| "join sep [x] = x"
| "join sep (x # y # ys) = x @ sep @ join sep (y # ys)"

section \<open>Regular expressions of the generators\<close>

text \<open>
  \<^verbatim>\<open>RegExp.prototype.exec\<close>, \<^verbatim>\<open>test\<close>, \<^verbatim>\<open>String.prototype.match\<close> and \<^verbatim>\<open>replace\<close> without
  the \<^verbatim>\<open>g\<close> flag try the pattern at index 0, 1, ... up to the length of the text and
  stop at the first index where it matches. \<open>regexSearch m i s\<close> does that for the
  anchored matcher \<open>m\<close>, which is given the text from the current index on; \<open>i\<close> is the
  index of the first character of \<open>s\<close> in the whole text.
\<close>

fun regexSearch :: "(string \<Rightarrow> 'a option) \<Rightarrow> nat \<Rightarrow> string \<Rightarrow> (nat \<times> 'a) option" where
  "regexSearch m i [] = (case m [] of None \<Rightarrow> None | Some r \<Rightarrow> Some (i, r))"
| "regexSearch m i (c # cs) =
     (case m (c # cs) of None \<Rightarrow> regexSearch m (Suc i) cs | Some r \<Rightarrow> Some (i, r))"

text \<open>
  The pattern \<^verbatim>\<open>lit\s*c\<close> for a literal \<open>lit\<close> and a character \<open>c\<close> that is not white
  space: the greedy \<^verbatim>\<open>\s*\<close> takes the whole run of white space, and giving characters
  back cannot help since \<open>c\<close> is not one of them. The result is the length of the match.
\<close>

definition matchLitWsChar :: "string \<Rightarrow> char \<Rightarrow> string \<Rightarrow> nat option" where
  "matchLitWsChar lit c s =
     (if startsWith s lit then
        (let r = drop (length lit) s; w = takeWhile isSpace r
         in case drop (length w) r of
              [] \<Rightarrow> None
            | d # _ \<Rightarrow> if d = c then Some (length lit + length w + 1) else None)
      else None)"

text \<open>
  The pattern \<^verbatim>\<open>lit\s*\[([^\]]*)\]\<close>: after the opening bracket the greedy class takes
  everything up to the first \<^verbatim>\<open>]\<close>, which must exist. The result is the length of the
  match and the text of group 1.
\<close>

definition matchArrayProp :: "string \<Rightarrow> string \<Rightarrow> (nat \<times> string) option" where
  "matchArrayProp lit s =
     (case matchLitWsChar lit (CHR ''['') s of
        None \<Rightarrow> None
      | Some n \<Rightarrow>
          (let r = drop n s; dirs = takeWhile (\<lambda>x. x \<noteq> CHR '']'') r
           in if length dirs < length r then Some (n + length dirs + 1, dirs) else None))"

text \<open>
  The pattern \<^verbatim>\<open>\}\s*$\<close> (no \<^verbatim>\<open>m\<close> flag: \<^verbatim>\<open>$\<close> is the end of the text): a closing brace
  followed by white space only.
\<close>

definition matchClosingBraceAtEnd :: "string \<Rightarrow> nat option" where
  "matchClosingBraceAtEnd s =
     (case s of
        [] \<Rightarrow> None
      | c # cs \<Rightarrow> if c = CHR ''}'' \<and> list_all isSpace cs then Some (length s) else None)"

text \<open>
  \<^verbatim>\<open>GetSubstitution\<close> of ECMAScript: the expansion of a replacement string given as a
  string (not as a function). \<open>caps\<close> are the capture groups of the match (\<open>None\<close> for a
  group that did not take part), \<open>matched\<close> the matched text, \<open>beforeMatch\<close> and \<open>afterMatch\<close>
  the text on either side of it. The patterns of the generators have no named groups, so
  \<^verbatim>\<open>$<\<close> stays as it is.
\<close>

definition isDigit :: "char \<Rightarrow> bool" where
  "isDigit c \<longleftrightarrow> (48::nat) \<le> of_char c \<and> of_char c \<le> (57::nat)"

definition digitVal :: "char \<Rightarrow> nat" where
  "digitVal c = of_char c - 48"

definition captureText :: "string option list \<Rightarrow> nat \<Rightarrow> string" where
  "captureText caps n = (case caps ! (n - 1) of None \<Rightarrow> [] | Some t \<Rightarrow> t)"

fun getSubstitution ::
  "string option list \<Rightarrow> string \<Rightarrow> string \<Rightarrow> string \<Rightarrow> string \<Rightarrow> string" where
  "getSubstitution caps matched beforeMatch afterMatch [] = []"
| "getSubstitution caps matched beforeMatch afterMatch [c] = [c]"
| "getSubstitution caps matched beforeMatch afterMatch (c # d # t) =
     (if c \<noteq> CHR ''$'' then c # getSubstitution caps matched beforeMatch afterMatch (d # t)
      else if d = CHR ''$'' then CHR ''$'' # getSubstitution caps matched beforeMatch afterMatch t
      else if d = CHR ''&'' then matched @ getSubstitution caps matched beforeMatch afterMatch t
      else if d = btick then beforeMatch @ getSubstitution caps matched beforeMatch afterMatch t
      else if d = squote then afterMatch @ getSubstitution caps matched beforeMatch afterMatch t
      else if isDigit d then
        (case t of
           e # t' \<Rightarrow>
             if isDigit e \<and> \<not> length caps < 10 * digitVal d + digitVal e
             then \<comment> \<open>two digits, not beyond the number of groups\<close>
               (if 1 \<le> 10 * digitVal d + digitVal e
                then captureText caps (10 * digitVal d + digitVal e) else [c, d, e])
               @ getSubstitution caps matched beforeMatch afterMatch t'
             else \<comment> \<open>one digit, the next character is ordinary text\<close>
               (if 1 \<le> digitVal d \<and> digitVal d \<le> length caps
                then captureText caps (digitVal d) else [c, d])
               @ getSubstitution caps matched beforeMatch afterMatch t
         | [] \<Rightarrow>
             if 1 \<le> digitVal d \<and> digitVal d \<le> length caps
             then captureText caps (digitVal d) else [c, d])
      else c # getSubstitution caps matched beforeMatch afterMatch (d # t))"

section \<open>The comment remover (vite-config.ts, removeComments)\<close>

text \<open>
  The inner loop over a string literal, entered after its opening delimiter \<open>q\<close> was
  copied. It returns the text copied to the result and the text left to scan. A backslash
  is copied with the character after it; at the very end of the text that character is
  \<^verbatim>\<open>undefined\<close>, which the concatenation turns into the word, and the index moves past
  the end.
\<close>

fun readString :: "char \<Rightarrow> string \<Rightarrow> string \<times> string" where
  "readString q [] = ([], [])"
| "readString q (c # cs) =
     (if c = bslash then
        (case cs of
           [] \<Rightarrow> (c # ''undefined'', [])
         | d # ds \<Rightarrow> (c # d # fst (readString q ds), snd (readString q ds)))
      else if c = q then ([c], cs)
      else (c # fst (readString q cs), snd (readString q cs)))"

text \<open>
  The loop over a block comment, entered after \<^verbatim>\<open>i += 2\<close>: it runs while two characters
  are left, and leaves a last single character to the outer loop.
\<close>

fun skipBlock :: "string \<Rightarrow> string" where
  "skipBlock (a # b # cs) = (if a = CHR ''*'' \<and> b = CHR ''/'' then cs else skipBlock (b # cs))"
| "skipBlock cs = cs"

lemma length_readString: "length (snd (readString q cs)) \<le> length cs"
proof (induction q cs rule: readString.induct)
  case (1 q)
  show ?case by simp
next
  case (2 q c cs)
  show ?case
  proof (cases "c = bslash")
    case True
    show ?thesis
    proof (cases cs)
      case Nil
      with True show ?thesis by simp
    next
      case (Cons d ds)
      with 2 True show ?thesis by simp
    qed
  next
    case False
    with 2 show ?thesis by (cases "c = q") auto
  qed
qed

lemma length_skipBlock: "length (skipBlock cs) \<le> length cs"
  by (induction cs rule: skipBlock.induct) auto
function removeComments :: "string \<Rightarrow> string" where
  "removeComments [] = []"
| "removeComments (c # cs) =
     (if c = squote \<or> c = dquote \<or> c = btick then
        c # fst (readString c cs) @ removeComments (snd (readString c cs))
      else if c = CHR ''/'' \<and> take 1 cs = ''/'' then
        (case dropWhile (\<lambda>x. x \<noteq> newline) cs of
           [] \<Rightarrow> []
         | n # rest \<Rightarrow> newline # removeComments rest)
      else if c = CHR ''/'' \<and> take 1 cs = ''*'' then
        removeComments (skipBlock (drop 1 cs))
      else c # removeComments cs)"
  by pat_completeness auto
termination
proof (relation "measure length")
  show "wf (measure length)" by simp
next
  fix c cs
  show "(snd (readString c cs), c # cs) \<in> measure length"
    using length_readString [of c cs] by simp
next
  fix c :: char and cs x21 x22
  assume "dropWhile (\<lambda>x. x \<noteq> newline) cs = x21 # x22"
  then have "length (x21 # x22) \<le> length cs"
    using length_dropWhile_le [of "\<lambda>x. x \<noteq> newline" cs] by simp
  then show "(x22, c # cs) \<in> measure length" by simp
next
  fix c cs
  show "(skipBlock (drop 1 cs), c # cs) \<in> measure length"
    using length_skipBlock [of "drop 1 cs"] by simp
next
  fix c :: char and cs :: string
  show "(cs, c # cs) \<in> measure length" by simp
qed

section \<open>The scan for the closing parenthesis (vite-config.ts, lines 151 to 186)\<close>

text \<open>
  The loop \<^verbatim>\<open>for (let i = startPos; i < length && depth > 0; i++)\<close>, over the text from
  index \<open>i\<close> on. Its state is \<open>depth\<close>, \<open>inString\<close>, \<open>stringChar\<close> (\<open>None\<close> for the empty
  string) and the character before index \<open>i\<close> (\<open>None\<close> at index 0). It returns
  \<open>endPos\<close>, or \<open>None\<close> when the text ends with \<open>depth\<close> not 0.
\<close>

definition isQuote :: "char \<Rightarrow> bool" where
  "isQuote c \<longleftrightarrow> c = dquote \<or> c = squote \<or> c = btick"

fun scanParens ::
  "int \<Rightarrow> bool \<Rightarrow> char option \<Rightarrow> char option \<Rightarrow> nat \<Rightarrow> string \<Rightarrow> nat option" where
  "scanParens depth inString stringChar prevChar i [] = None"
| "scanParens depth inString stringChar prevChar i (c # cs) =
     (let opens = (isQuote c \<and> prevChar \<noteq> Some bslash \<and> \<not> inString);
          closes = (isQuote c \<and> prevChar \<noteq> Some bslash \<and> inString \<and> Some c = stringChar);
          inString' = (if opens then True else if closes then False else inString);
          stringChar' = (if opens then Some c else if closes then None else stringChar);
          depth' = (if \<not> inString' \<and> c = CHR ''('' then depth + 1
                    else if \<not> inString' \<and> c = CHR '')'' then depth - 1
                    else depth)
      in if depth' = 0 then Some i
         else scanParens depth' inString' stringChar' (Some c) (Suc i) cs)"

definition findClosingParen :: "string \<Rightarrow> nat \<Rightarrow> nat option" where
  "findClosingParen content startPos =
     scanParens 1 False None
       (if 0 < startPos then Some (content ! (startPos - 1)) else None)
       startPos (drop startPos content)"

section \<open>The library generator: updateViteConfig (vite-config.ts)\<close>

text \<open>
  The options object \<^verbatim>\<open>{ addPages?: boolean; addApi?: boolean }\<close>: an absent field
  is \<open>None\<close>.
\<close>

record updateOptions =
  addPages :: "bool option"
  addApi :: "bool option"

text \<open>\<^verbatim>\<open>.replace(/\\/g, '/')\<close>: every backslash becomes a slash.\<close>

definition slashes :: "string \<Rightarrow> string" where
  "slashes s = map (\<lambda>c. if c = bslash then CHR ''/'' else c) s"

text \<open>
  The regular expressions of the function: \<^verbatim>\<open>/analog\s*\(/\<close> with \<^verbatim>\<open>exec\<close> (index and
  length of the match), and the three tests \<^verbatim>\<open>/key\s*:/.test(innerContent)\<close>.
\<close>

definition analogCallRegex :: "string \<Rightarrow> (nat \<times> nat) option" where
  "analogCallRegex s = regexSearch (matchLitWsChar ''analog'' (CHR ''('')) 0 s"

definition hasKey :: "string \<Rightarrow> string \<Rightarrow> bool" where
  "hasKey key s \<longleftrightarrow> regexSearch (matchLitWsChar key (CHR '':'')) 0 s \<noteq> None"

text \<open>
  \<^verbatim>\<open>trimmedInner.length > 0 && !trimmedInner.endsWith(',')\<close> for
  \<^verbatim>\<open>trimmedInner = innerContent.trim()\<close>.
\<close>

definition needsComma :: "string \<Rightarrow> bool" where
  "needsComma innerContent \<longleftrightarrow>
     (let trimmedInner = trim innerContent
      in 0 < length trimmedInner \<and> \<not> endsWith trimmedInner '','')"

definition commaIf :: "bool \<Rightarrow> string" where
  "commaIf b = (if b then '','' else [])"

text \<open>
  \<^verbatim>\<open>s.startsWith('{') && s.endsWith('}') ? s.substring(1, s.length - 1) : s\<close>
  (lines 214 to 217 and 249 to 251).
\<close>

definition stripOuterBraces :: "string \<Rightarrow> string" where
  "stripOuterBraces s =
     (if startsWith s ''{'' \<and> endsWith s ''}'' then substring s 1 (length s - 1) else s)"

text \<open>
  \<^verbatim>\<open>s.replace(/key:\s*\[([^\]]*)\]/, (match, dirs) => ...)\<close> (lines 234 to 240 and 255 to
  261): the first match is replaced by the value of the function, which is taken as it
  is; without a match the text is returned unchanged.
\<close>

definition appendToArray :: "string \<Rightarrow> string \<Rightarrow> string \<Rightarrow> string" where
  "appendToArray key dirFormatted s =
     (case regexSearch (matchArrayProp (key @ '':'')) 0 s of
        None \<Rightarrow> s
      | Some (i, n, dirs) \<Rightarrow>
          (let existingDirs = (if 0 < length (trim dirs) then trim dirs @ '', '' else [])
           in take i s @ key @ '': ['' @ existingDirs @ dirFormatted @ '']'' @ drop (i + n) s))"

text \<open>
  \<^verbatim>\<open>s.replace(/\}\s*$/, replacement)\<close> (line 267) with a replacement string, which is
  expanded by \<open>getSubstitution\<close>; the pattern has no capture group.
\<close>

definition replaceClosingBrace :: "string \<Rightarrow> string \<Rightarrow> string" where
  "replaceClosingBrace s replacement =
     (case regexSearch matchClosingBraceAtEnd 0 s of
        None \<Rightarrow> s
      | Some (i, n) \<Rightarrow>
          take i s
          @ getSubstitution [] (take n (drop i s)) (take i s) (drop (i + n) s) replacement
          @ drop (i + n) s)"

text \<open>Lines 198 to 210: the options of a call that had none.\<close>

definition freshOptions :: "string \<Rightarrow> string \<Rightarrow> bool \<Rightarrow> bool \<Rightarrow> string" where
  "freshOptions pagesDirFormatted apiDirFormatted shouldAddPages shouldAddApi =
     (let newOptions =
            [''liveReload: true'']
            @ (if shouldAddPages then [''additionalPagesDirs: ['' @ pagesDirFormatted @ '']''] else [])
            @ (if shouldAddApi then [''additionalAPIDirs: ['' @ apiDirFormatted @ '']''] else [])
      in if 0 < length newOptions
         then ''{\<newline>        '' @ join '',\<newline>        '' newOptions @ ''\<newline>      }''
         else ''{}'')"

text \<open>
  Lines 211 to 269: the options of a call that has some. The variables
  \<^verbatim>\<open>newAnalogContent\<close> and \<^verbatim>\<open>innerContent\<close> are assigned several times; each
  assignment has its own name here, numbered in the order of the source. Line 234 reads
  \<^verbatim>\<open>analogContent\<close>, line 255 reads \<^verbatim>\<open>newAnalogContent\<close>.
\<close>

definition extendOptions :: "string \<Rightarrow> string \<Rightarrow> string \<Rightarrow> bool \<Rightarrow> bool \<Rightarrow> string" where
  "extendOptions analogContent pagesDirFormatted apiDirFormatted shouldAddPages shouldAddApi =
     (let innerContent0 = stripOuterBraces analogContent;
          hasPagesDir = hasKey ''additionalPagesDirs'' innerContent0;
          hasApiDir = hasKey ''additionalAPIDirs'' innerContent0;
          hasLiveReload = hasKey ''liveReload'' innerContent0;
          newAnalogContent1 =
            (if \<not> hasLiveReload
             then ''{\<newline>'' @ innerContent0 @ commaIf (needsComma innerContent0)
                  @ ''\<newline>        liveReload: true\<newline>      }''
             else analogContent);
          innerContent1 =
            (if \<not> hasLiveReload
             then substring newAnalogContent1 1 (length newAnalogContent1 - 1)
             else innerContent0);
          newAnalogContent2 =
            (if shouldAddPages \<and> hasPagesDir
             then appendToArray ''additionalPagesDirs'' pagesDirFormatted analogContent
             else if shouldAddPages \<and> \<not> hasPagesDir
             then ''{\<newline>'' @ innerContent1 @ commaIf (needsComma innerContent1)
                  @ ''\<newline>        additionalPagesDirs: ['' @ pagesDirFormatted
                  @ '']\<newline>      }''
             else newAnalogContent1);
          innerContent2 = stripOuterBraces newAnalogContent2
      in if shouldAddApi \<and> hasApiDir
         then appendToArray ''additionalAPIDirs'' apiDirFormatted newAnalogContent2
         else if shouldAddApi \<and> \<not> hasApiDir
         then (if startsWith newAnalogContent2 ''{''
               then replaceClosingBrace newAnalogContent2
                      (commaIf (needsComma innerContent2)
                       @ ''\<newline>        additionalAPIDirs: ['' @ apiDirFormatted
                       @ '']\<newline>      }'')
               else ''{\<newline>'' @ innerContent2 @ commaIf (needsComma innerContent2)
                    @ ''\<newline>        additionalAPIDirs: ['' @ apiDirFormatted
                    @ '']\<newline>      }'')
         else newAnalogContent2)"

text \<open>
  Lines 190 to 194: \<^verbatim>\<open>removeComments(analogContent).replace(/\s+/g, '')\<close> removes every
  run of white space, that is every white space character.
\<close>

definition isEmpty :: "string \<Rightarrow> bool" where
  "isEmpty analogContent \<longleftrightarrow>
     (let contentWithoutCommentsAndWhitespace =
            filter (\<lambda>c. \<not> isSpace c) (removeComments analogContent)
      in contentWithoutCommentsAndWhitespace = []
         \<or> contentWithoutCommentsAndWhitespace = ''{}'')"

text \<open>
  \<^verbatim>\<open>updateViteConfig(content, libSrcRoot, options)\<close>. \<^verbatim>\<open>path.join\<close> is Node's; it is
  the parameter \<open>pathJoin\<close>. The two early returns (lines 144 to 147 and 183 to 186) only
  log a warning.
\<close>

definition updateViteConfig ::
  "(string list \<Rightarrow> string) \<Rightarrow> string \<Rightarrow> string \<Rightarrow> updateOptions \<Rightarrow> string" where
  "updateViteConfig pathJoin content libSrcRoot options =
     (let shouldAddPages = (addPages options \<noteq> Some False);
          shouldAddApi = (addApi options \<noteq> Some False);
          pagesDir = slashes (pathJoin [libSrcRoot, ''pages'']);
          pagesDirFormatted = [squote] @ pagesDir @ [squote];
          apiDir = slashes (pathJoin [libSrcRoot, ''backend'', ''api'']);
          apiDirFormatted = [squote] @ apiDir @ [squote]
      in case analogCallRegex content of
           None \<Rightarrow> content
         | Some (index, len) \<Rightarrow>
             (let startPos = index + len
              in case findClosingParen content startPos of
                   None \<Rightarrow> content
                 | Some endPos \<Rightarrow>
                     (let analogContent = trim (substring content startPos endPos);
                          newAnalogContent =
                            (if isEmpty analogContent
                             then freshOptions pagesDirFormatted apiDirFormatted
                                    shouldAddPages shouldAddApi
                             else extendOptions analogContent pagesDirFormatted
                                    apiDirFormatted shouldAddPages shouldAddApi);
                          beforeCall = substring content 0 startPos;
                          afterCall = substring content endPos (length content)
                      in beforeCall @ newAnalogContent @ afterCall)))"

text \<open>
  \<^verbatim>\<open>path.join\<close> on segments that are already normal (relative, no empty, \<^verbatim>\<open>.\<close> or
  \<^verbatim>\<open>..\<close> part): the segments joined by a slash. It instantiates \<open>pathJoin\<close> in the
  concrete runs below.
\<close>

definition joinSegments :: "string list \<Rightarrow> string" where
  "joinSegments segs = join ''/'' segs"

section \<open>The workspace (Nx devkit)\<close>

text \<open>
  A value read by \<^verbatim>\<open>JSON.parse\<close>. An object is the list of its own properties.
\<close>

datatype json =
    JNull
  | JBool bool
  | JNumber int
  | JString string
  | JArray "json list"
  | JObject "(string \<times> json) list"

text \<open>A thrown JavaScript exception, with its message.\<close>

datatype exn = TypeError string | Error string

text \<open>
  The functions of \<^verbatim>\<open>@nx/devkit\<close> and of the \<^verbatim>\<open>Tree\<close> object that the generators call,
  over a type \<open>'t\<close> of trees. They are not part of the repository and are parameters of
  the model, as are \<^verbatim>\<open>JSON.parse\<close> and \<^verbatim>\<open>joinPathFragments\<close>. \<^verbatim>\<open>readNxJson\<close> gives
  \<open>JNull\<close> for \<^verbatim>\<open>null\<close>; \<^verbatim>\<open>tree.read\<close> gives \<open>None\<close> for \<^verbatim>\<open>null\<close>, and the text of
  the file (its \<^verbatim>\<open>toString('utf-8')\<close>) otherwise. A project configuration keeps the two
  fields the generators read; \<^verbatim>\<open>projectType\<close> is optional.
\<close>

record projectConfiguration =
  root :: string
  projectType :: "string option"

record 't devkit =
  treeExists :: "'t \<Rightarrow> string \<Rightarrow> bool"
  treeChildren :: "'t \<Rightarrow> string \<Rightarrow> string list"
  treeRead :: "'t \<Rightarrow> string \<Rightarrow> string option"
  treeWrite :: "'t \<Rightarrow> string \<Rightarrow> string \<Rightarrow> 't"
  readJson :: "'t \<Rightarrow> string \<Rightarrow> exn + json"
  readNxJson :: "'t \<Rightarrow> exn + json"
  readProjectConfiguration :: "'t \<Rightarrow> string \<Rightarrow> exn + projectConfiguration"
  addDependenciesToPackageJson ::
    "'t \<Rightarrow> (string \<times> json) list \<Rightarrow> (string \<times> json) list \<Rightarrow> 't"
  formatFiles :: "'t \<Rightarrow> exn + 't"
  joinPathFragments :: "string list \<Rightarrow> string"
  jsonParse :: "string \<Rightarrow> exn + json"

text \<open>
  Reading a property of a parsed value: \<^verbatim>\<open>null\<close> throws, an object gives its own
  property or \<^verbatim>\<open>undefined\<close> (\<open>None\<close>), any other value gives \<^verbatim>\<open>undefined\<close> for the names
  the generators read (none is an index or \<^verbatim>\<open>length\<close>).
\<close>

fun getProp :: "json \<Rightarrow> string \<Rightarrow> exn + json option" where
  "getProp JNull k = Inl (TypeError ''cannot read properties of null'')"
| "getProp (JObject props) k = Inr (map_of props k)"
| "getProp _ k = Inr None"

text \<open>Whether a value, or \<^verbatim>\<open>undefined\<close>, counts as true in a condition.\<close>

fun truthy :: "json option \<Rightarrow> bool" where
  "truthy None = False"
| "truthy (Some JNull) = False"
| "truthy (Some (JBool b)) = b"
| "truthy (Some (JNumber n)) = (n \<noteq> 0)"
| "truthy (Some (JString s)) = (s \<noteq> [])"
| "truthy (Some (JArray xs)) = True"
| "truthy (Some (JObject props)) = True"

section \<open>getWorkspaceScope (workspace.ts)\<close>

text \<open>
  \<^verbatim>\<open>getFieldValue(obj, fieldName, 'string')\<close>. A falsy \<open>obj\<close> gives \<^verbatim>\<open>undefined\<close>
  (\<open>None\<close>); the \<^verbatim>\<open>in\<close> operator throws a TypeError on a value that is not an object.
  The properties that an object or an array inherits are functions and objects, and the
  length of an array is a number: none has the type \<^verbatim>\<open>string\<close>. An array has its
  elements as own properties, under their indices.
\<close>

definition arrayIndex :: "string \<Rightarrow> nat option" where
  "arrayIndex s =
     (if s = ''0'' then Some 0
      else if s \<noteq> [] \<and> list_all isDigit s \<and> hd s \<noteq> CHR ''0''
      then Some (foldl (\<lambda>n c. 10 * n + digitVal c) 0 s)
      else None)"

fun getFieldValue :: "json \<Rightarrow> string \<Rightarrow> exn + string option" where
  "getFieldValue JNull fieldName = Inr None"
| "getFieldValue (JBool b) fieldName =
     (if b then Inl (TypeError ''right-hand side of in is not an object'') else Inr None)"
| "getFieldValue (JNumber n) fieldName =
     (if n \<noteq> 0 then Inl (TypeError ''right-hand side of in is not an object'') else Inr None)"
| "getFieldValue (JString s) fieldName =
     (if s \<noteq> [] then Inl (TypeError ''right-hand side of in is not an object'') else Inr None)"
| "getFieldValue (JArray xs) fieldName =
     (case arrayIndex fieldName of
        None \<Rightarrow> Inr None
      | Some i \<Rightarrow>
          if i < length xs then (case xs ! i of JString s \<Rightarrow> Inr (Some s) | _ \<Rightarrow> Inr None)
          else Inr None)"
| "getFieldValue (JObject props) fieldName =
     (case map_of props fieldName of
        Some (JString s) \<Rightarrow> Inr (Some s)
      | _ \<Rightarrow> Inr None)"

text \<open>
  Lines 62 to 68 and 93 to 99: a name that is a string, starts with \<^verbatim>\<open>@\<close> and holds a
  slash gives \<^verbatim>\<open>name.substring(0, name.indexOf('/'))\<close>.
\<close>

definition indexOfChar :: "string \<Rightarrow> char \<Rightarrow> nat" where
  "indexOfChar s c = length (takeWhile (\<lambda>x. x \<noteq> c) s)"

fun scopeOfName :: "json option \<Rightarrow> string option" where
  "scopeOfName (Some (JString name)) =
     (if startsWith name ''@'' \<and> strIncludes name ''/''
      then Some (substring name 0 (indexOfChar name (CHR ''/'')))
      else None)"
| "scopeOfName _ = None"

text \<open>
  The loop over the children of one directory (lines 56 to 81). An exception of
  \<^verbatim>\<open>readJson\<close> or of the property access is caught inside the loop, which goes on with
  the next child.
\<close>

fun scanChildren :: "'t devkit \<Rightarrow> 't \<Rightarrow> string \<Rightarrow> string list \<Rightarrow> string option" where
  "scanChildren dk tree dir [] = None"
| "scanChildren dk tree dir (child # rest) =
     (let packageJsonPath = dir @ ''/'' @ child @ ''/package.json''
      in if treeExists dk tree packageJsonPath then
           (case readJson dk tree packageJsonPath of
              Inl e \<Rightarrow> scanChildren dk tree dir rest
            | Inr packageJson \<Rightarrow>
                (case getProp packageJson ''name'' of
                   Inl e \<Rightarrow> scanChildren dk tree dir rest
                 | Inr name \<Rightarrow>
                     (case scopeOfName name of
                        Some scope \<Rightarrow> Some scope
                      | None \<Rightarrow> scanChildren dk tree dir rest)))
         else scanChildren dk tree dir rest)"

text \<open>The loop over \<^verbatim>\<open>['packages', 'libs']\<close> (lines 53 to 83).\<close>

fun scanPackageDirs :: "'t devkit \<Rightarrow> 't \<Rightarrow> string list \<Rightarrow> string option" where
  "scanPackageDirs dk tree [] = None"
| "scanPackageDirs dk tree (dir # rest) =
     (if treeExists dk tree dir then
        (case scanChildren dk tree dir (treeChildren dk tree dir) of
           Some scope \<Rightarrow> Some scope
         | None \<Rightarrow> scanPackageDirs dk tree rest)
      else scanPackageDirs dk tree rest)"

text \<open>
  \<^verbatim>\<open>getWorkspaceScope(tree)\<close>: \<open>None\<close> is \<^verbatim>\<open>null\<close>. Each of the three \<^verbatim>\<open>try\<close> blocks
  catches its exception, logs a warning and lets the function go on.
\<close>

definition scopeFromNxJson :: "'t devkit \<Rightarrow> 't \<Rightarrow> string option" where
  "scopeFromNxJson dk tree =
     (case readNxJson dk tree of
        Inl e \<Rightarrow> None
      | Inr nxJson \<Rightarrow>
          (case getFieldValue nxJson ''npmScope'' of
             Inl e \<Rightarrow> None
           | Inr None \<Rightarrow> None
           | Inr (Some scopeFromNx) \<Rightarrow>
               Some (if startsWith scopeFromNx ''@'' then scopeFromNx else ''@'' @ scopeFromNx)))"

definition scopeFromRootPackage :: "'t devkit \<Rightarrow> 't \<Rightarrow> string option" where
  "scopeFromRootPackage dk tree =
     (if treeExists dk tree ''package.json'' then
        (case readJson dk tree ''package.json'' of
           Inl e \<Rightarrow> None
         | Inr packageJson \<Rightarrow>
             (case getProp packageJson ''name'' of
                Inl e \<Rightarrow> None
              | Inr name \<Rightarrow> scopeOfName name))
      else None)"

definition getWorkspaceScope :: "'t devkit \<Rightarrow> 't \<Rightarrow> string option" where
  "getWorkspaceScope dk tree =
     (case scopeFromNxJson dk tree of
        Some scope \<Rightarrow> Some scope
      | None \<Rightarrow>
          (case scanPackageDirs dk tree [''packages'', ''libs''] of
             Some scope \<Rightarrow> Some scope
           | None \<Rightarrow> scopeFromRootPackage dk tree))"

section \<open>Regular expressions of the init-auth generator\<close>

text \<open>
  Anchored matchers are built from steps that take the text left to match and give the
  text after the step, or \<open>None\<close>. In every pattern below a greedy class is followed by
  a character outside the class, so the class takes its whole run and giving characters
  back cannot make the rest match.
\<close>

definition skipLit :: "string \<Rightarrow> string \<Rightarrow> string option" where
  "skipLit lit s = (if startsWith s lit then Some (drop (length lit) s) else None)"

text \<open>\<^verbatim>\<open>\s+\<close> before a character that is not white space.\<close>

definition skipWs1 :: "string \<Rightarrow> string option" where
  "skipWs1 s = (case s of [] \<Rightarrow> None | c # cs \<Rightarrow> if isSpace c then Some (dropWhile isSpace s) else None)"

text \<open>One character of a class.\<close>

definition skipChar :: "(char \<Rightarrow> bool) \<Rightarrow> string \<Rightarrow> string option" where
  "skipChar P s = (case s of [] \<Rightarrow> None | c # cs \<Rightarrow> if P c then Some cs else None)"

text \<open>
  A class repeated at least once (\<^verbatim>\<open>[^}]+\<close>, \<^verbatim>\<open>\w+\<close>): the run and the text after it.
\<close>

definition takeRun1 :: "(char \<Rightarrow> bool) \<Rightarrow> string \<Rightarrow> (string \<times> string) option" where
  "takeRun1 P s = (if takeWhile P s = [] then None else Some (takeWhile P s, dropWhile P s))"

text \<open>
  \<^verbatim>\<open>\s*\n\<close> at the end of a pattern or before a repetition of \<^verbatim>\<open>import\<close>: the greedy
  \<^verbatim>\<open>\s*\<close> takes the run of white space and gives back down to the last line feed of the
  run, which \<^verbatim>\<open>\n\<close> takes.
\<close>

definition skipWsThenNewline :: "string \<Rightarrow> string option" where
  "skipWsThenNewline s =
     (let w = takeWhile isSpace s
      in if newline \<in> set w
         then Some (drop (length w - length (takeWhile (\<lambda>c. c \<noteq> newline) (rev w))) s)
         else None)"

text \<open>
  \<^verbatim>\<open>\s*\n\s*\<close> before a word character: the whole run of white space, which must hold a
  line feed.
\<close>

definition skipWsWithNewline :: "string \<Rightarrow> string option" where
  "skipWsWithNewline s =
     (let w = takeWhile isSpace s
      in if newline \<in> set w then Some (drop (length w) s) else None)"

text \<open>An optional literal that is taken when it is there (\<^verbatim>\<open>;?\<close>, \<^verbatim>\<open>,?\<close>).\<close>

definition skipOpt :: "string \<Rightarrow> string \<Rightarrow> string" where
  "skipOpt lit s = (case skipLit lit s of Some r \<Rightarrow> r | None \<Rightarrow> s)"

definition isWordChar :: "char \<Rightarrow> bool" where
  "isWordChar c \<longleftrightarrow>
     (let n = (of_char c :: nat)
      in (48 \<le> n \<and> n \<le> 57) \<or> (65 \<le> n \<and> n \<le> 90) \<or> n = 95 \<or> (97 \<le> n \<and> n \<le> 122))"

definition isQuote2 :: "char \<Rightarrow> bool" where
  "isQuote2 c \<longleftrightarrow> c = squote \<or> c = dquote"

text \<open>
  One statement of the import pattern,
  \<^verbatim>\<open>import\s+{[^}]+}\s+from\s+['"][^'"]+['"];?\s*\n\<close>. The optional semicolon is taken
  when it is there: without it the rest would have to match at the semicolon.
\<close>

definition matchImportStmt :: "string \<Rightarrow> string option" where
  "matchImportStmt s =
     do {
       r1 \<leftarrow> skipLit ''import'' s;
       r2 \<leftarrow> skipWs1 r1;
       r3 \<leftarrow> skipLit ''{'' r2;
       (names, r4) \<leftarrow> takeRun1 (\<lambda>c. c \<noteq> CHR ''}'') r3;
       r5 \<leftarrow> skipLit ''}'' r4;
       r6 \<leftarrow> skipWs1 r5;
       r7 \<leftarrow> skipLit ''from'' r6;
       r8 \<leftarrow> skipWs1 r7;
       r9 \<leftarrow> skipChar isQuote2 r8;
       (spec, r10) \<leftarrow> takeRun1 (\<lambda>c. \<not> isQuote2 c) r9;
       r11 \<leftarrow> skipChar isQuote2 r10;
       skipWsThenNewline (skipOpt '';'' r11)
     }"

lemma skipLit_le: "skipLit lit s = Some r \<Longrightarrow> length r \<le> length s"
  by (auto simp: skipLit_def split: if_splits)

lemma skipLit_lt: "skipLit (c # lit) s = Some r \<Longrightarrow> length r < length s"
  by (cases s) (auto simp: skipLit_def startsWith_def split: if_splits)

lemma skipWs1_le: "skipWs1 s = Some r \<Longrightarrow> length r \<le> length s"
  using length_dropWhile_le [of isSpace s]
  by (auto simp: skipWs1_def split: list.splits if_splits)

lemma skipChar_le: "skipChar P s = Some r \<Longrightarrow> length r \<le> length s"
  by (auto simp: skipChar_def split: list.splits if_splits)

lemma takeRun1_le: "takeRun1 P s = Some (g, r) \<Longrightarrow> length r \<le> length s"
  using length_dropWhile_le [of P s]
  by (auto simp: takeRun1_def split: if_splits)

lemma skipWsThenNewline_le: "skipWsThenNewline s = Some r \<Longrightarrow> length r \<le> length s"
  by (auto simp: skipWsThenNewline_def Let_def split: if_splits)

lemma skipOptThenNewline_le:
  "skipWsThenNewline (skipOpt lit s) = Some r \<Longrightarrow> length r \<le> length s"
  by (auto simp: skipOpt_def split: option.splits dest!: skipWsThenNewline_le skipLit_le)

lemma matchImportStmt_shorter:
  assumes "matchImportStmt s = Some r"
  shows "length r < length s"
  using assms unfolding matchImportStmt_def
  by (auto simp: bind_eq_Some_conv
        dest!: skipLit_lt skipWs1_le skipChar_le takeRun1_le skipOptThenNewline_le)

text \<open>
  The repetition \<^verbatim>\<open>(...)+\<close> of the import pattern, after its first statement: it goes
  on as long as another statement follows at once. It gives the text after the last
  statement.
\<close>

function importRun :: "string \<Rightarrow> string" where
  "importRun s = (case matchImportStmt s of None \<Rightarrow> s | Some r \<Rightarrow> importRun r)"
  by pat_completeness auto
termination
  by (relation "measure length") (auto dest: matchImportStmt_shorter)

text \<open>The import pattern at the start of \<open>s\<close>: the length of the match.\<close>

definition matchImports :: "string \<Rightarrow> nat option" where
  "matchImports s =
     (case matchImportStmt s of
        None \<Rightarrow> None
      | Some r \<Rightarrow> Some (length s - length (importRun r)))"

text \<open>
  \<^verbatim>\<open>/,\s*\n\s*(\w+\([^)]*\)|provide\w+\([^)]*\))\s*,?\s*$/\<close>. Whatever the second
  alternative matches the first one matches too, with the same text, so the pattern
  matches as \<^verbatim>\<open>,\s*\n\s*(\w+\([^)]*\))\s*,?\s*$\<close> does. The result is the length of the
  match and group 1.
\<close>

definition lastProviderRegex :: "string \<Rightarrow> (nat \<times> string option list) option" where
  "lastProviderRegex s =
     do {
       r1 \<leftarrow> skipLit '','' s;
       r2 \<leftarrow> skipWsWithNewline r1;
       (word, r3) \<leftarrow> takeRun1 isWordChar r2;
       r4 \<leftarrow> skipLit ''('' r3;
       r5 \<leftarrow> skipLit '')'' (dropWhile (\<lambda>c. c \<noteq> CHR '')'') r4);
       let r6 = dropWhile isSpace r5;
       let r7 = skipOpt '','' r6;
       if list_all isSpace r7
       then Some (length s, [Some (take (length r2 - length r5) r2)])
       else None
     }"

text \<open>\<^verbatim>\<open>/withInterceptors\(\[([^\]]*)\]\)/\<close>.\<close>

definition withInterceptorsRegex :: "string \<Rightarrow> (nat \<times> string option list) option" where
  "withInterceptorsRegex s =
     do {
       r1 \<leftarrow> skipLit ''withInterceptors(['' s;
       r2 \<leftarrow> skipLit ''])'' (dropWhile (\<lambda>c. c \<noteq> CHR '']'') r1);
       Some (length s - length r2, [Some (takeWhile (\<lambda>c. c \<noteq> CHR '']'') r1)])
     }"

text \<open>
  \<^verbatim>\<open>/provideHttpClient\(([\s\S]*?)\)/\<close>: the lazy class stops at the first closing
  parenthesis.
\<close>

definition provideHttpClientRegex :: "string \<Rightarrow> (nat \<times> string option list) option" where
  "provideHttpClientRegex s =
     do {
       r1 \<leftarrow> skipLit ''provideHttpClient('' s;
       r2 \<leftarrow> skipLit '')'' (dropWhile (\<lambda>c. c \<noteq> CHR '')'') r1);
       Some (length s - length r2, [Some (takeWhile (\<lambda>c. c \<noteq> CHR '')'') r1)])
     }"

text \<open>\<^verbatim>\<open>/from\s+['"]@angular\/common\/http['"]/\<close>.\<close>

definition fromHttpRegex :: "string \<Rightarrow> (nat \<times> string option list) option" where
  "fromHttpRegex s =
     do {
       r1 \<leftarrow> skipLit ''from'' s;
       r2 \<leftarrow> skipWs1 r1;
       r3 \<leftarrow> skipChar isQuote2 r2;
       r4 \<leftarrow> skipLit ''@angular/common/http'' r3;
       r5 \<leftarrow> skipChar isQuote2 r4;
       Some (length s - length r5, [])
     }"

text \<open>\<^verbatim>\<open>/import\s+{([^}]+)}\s+from\s+['"]@angular\/common\/http['"]/\<close>.\<close>

definition importHttpRegex :: "string \<Rightarrow> (nat \<times> string option list) option" where
  "importHttpRegex s =
     do {
       r1 \<leftarrow> skipLit ''import'' s;
       r2 \<leftarrow> skipWs1 r1;
       r3 \<leftarrow> skipLit ''{'' r2;
       (imports, r4) \<leftarrow> takeRun1 (\<lambda>c. c \<noteq> CHR ''}'') r3;
       r5 \<leftarrow> skipLit ''}'' r4;
       r6 \<leftarrow> skipWs1 r5;
       (n, caps) \<leftarrow> fromHttpRegex r6;
       Some (length s - length r6 + n, [Some imports])
     }"

text \<open>
  \<^verbatim>\<open>/ssr:\s*{\s*noExternal:\s*\[([\s\S]*?)\]/\<close>: the lazy class stops at the first
  closing bracket.
\<close>

definition noExternalRegex :: "string \<Rightarrow> (nat \<times> string option list) option" where
  "noExternalRegex s =
     do {
       n1 \<leftarrow> matchLitWsChar ''ssr:'' (CHR ''{'') s;
       let r1 = dropWhile isSpace (drop n1 s);
       n2 \<leftarrow> matchLitWsChar ''noExternal:'' (CHR ''['') r1;
       let r2 = drop n2 r1;
       r3 \<leftarrow> skipLit '']'' (dropWhile (\<lambda>c. c \<noteq> CHR '']'') r2);
       Some (length s - length r3, [Some (takeWhile (\<lambda>c. c \<noteq> CHR '']'') r2)])
     }"

text \<open>A pattern without groups, as a matcher that gives the length and no group.\<close>

definition noGroups :: "(string \<Rightarrow> nat option) \<Rightarrow> string \<Rightarrow> (nat \<times> string option list) option" where
  "noGroups m s = (case m s of None \<Rightarrow> None | Some n \<Rightarrow> Some (n, []))"

text \<open>
  \<^verbatim>\<open>s.replace(regex, replacement)\<close> for a replacement string and for a replacement
  function (which gets the match and the groups), and \<^verbatim>\<open>s.replace(pattern, replacement)\<close>
  for a pattern string: the first match or occurrence is replaced, a text without one is
  returned as it is.
\<close>

definition regexReplace ::
  "(string \<Rightarrow> (nat \<times> string option list) option) \<Rightarrow> string \<Rightarrow> string \<Rightarrow> string" where
  "regexReplace m s replacement =
     (case regexSearch m 0 s of
        None \<Rightarrow> s
      | Some (i, n, caps) \<Rightarrow>
          take i s
          @ getSubstitution caps (take n (drop i s)) (take i s) (drop (i + n) s) replacement
          @ drop (i + n) s)"

definition regexReplaceFn ::
  "(string \<Rightarrow> (nat \<times> string option list) option) \<Rightarrow> string
     \<Rightarrow> (string \<Rightarrow> string option list \<Rightarrow> string) \<Rightarrow> string" where
  "regexReplaceFn m s f =
     (case regexSearch m 0 s of
        None \<Rightarrow> s
      | Some (i, n, caps) \<Rightarrow> take i s @ f (take n (drop i s)) caps @ drop (i + n) s)"

definition stringReplace :: "string \<Rightarrow> string \<Rightarrow> string \<Rightarrow> string" where
  "stringReplace s pattern replacement =
     regexReplace (\<lambda>t. if startsWith t pattern then Some (length pattern, []) else None)
       s replacement"

text \<open>\<^verbatim>\<open>s.split(',')\<close>: the pieces between the commas; the empty text gives one empty piece.\<close>

fun splitComma :: "string \<Rightarrow> string list" where
  "splitComma [] = [[]]"
| "splitComma (c # cs) =
     (if c = CHR '','' then [] # splitComma cs
      else (case splitComma cs of p # ps \<Rightarrow> (c # p) # ps | [] \<Rightarrow> [[c]]))"


section \<open>The init-auth generator\<close>

subsection \<open>getGeneratorVersion\<close>

text \<open>
  One of the two probes: the version of the package file at \<open>path\<close> when the file is
  there and its version counts as true. The whole function is inside one \<^verbatim>\<open>try\<close>; any
  exception gives \<^verbatim>\<open>'latest'\<close>.
\<close>

definition versionAt :: "'t devkit \<Rightarrow> 't \<Rightarrow> string \<Rightarrow> exn + json option" where
  "versionAt dk tree path =
     (if treeExists dk tree path then
        (case readJson dk tree path of
           Inl e \<Rightarrow> Inl e
         | Inr generatorPackageJson \<Rightarrow>
             (case getProp generatorPackageJson ''version'' of
                Inl e \<Rightarrow> Inl e
              | Inr v \<Rightarrow> if truthy v then Inr v else Inr None))
      else Inr None)"

definition getGeneratorVersion :: "'t devkit \<Rightarrow> 't \<Rightarrow> json" where
  "getGeneratorVersion dk tree =
     (case versionAt dk tree ''node_modules/@analog-tools/generator/package.json'' of
        Inl e \<Rightarrow> JString ''latest''
      | Inr (Some v) \<Rightarrow> v
      | Inr None \<Rightarrow>
          (case versionAt dk tree ''packages/generator/package.json'' of
             Inl e \<Rightarrow> JString ''latest''
           | Inr (Some v) \<Rightarrow> v
           | Inr None \<Rightarrow> JString ''latest''))"

subsection \<open>ensureAuthPackages\<close>

text \<open>
  \<^verbatim>\<open>(packageJson.dependencies && packageJson.dependencies[pkg])\<close> for one of the two
  sections: a section that counts as true is not \<^verbatim>\<open>null\<close>, so reading its property does
  not throw.
\<close>

definition inSection :: "json option \<Rightarrow> string \<Rightarrow> bool" where
  "inSection sect pkg \<longleftrightarrow>
     truthy sect \<and>
     (case sect of
        None \<Rightarrow> False
      | Some j \<Rightarrow> (case getProp j pkg of Inl e \<Rightarrow> False | Inr v \<Rightarrow> truthy v))"

definition requiredPackages :: "string list" where
  "requiredPackages =
     [''@analog-tools/auth'', ''@analog-tools/inject'', ''@analog-tools/logger'',
      ''@analog-tools/session'']"

text \<open>
  The callback that \<^verbatim>\<open>addDependenciesToPackageJson\<close> returns installs the packages; it is
  kept as a value that names them.
\<close>

datatype generatorCallback = InstallPackagesTask "(string \<times> json) list"

definition ensureAuthPackages ::
  "'t devkit \<Rightarrow> 't \<Rightarrow> exn + (generatorCallback option \<times> 't)" where
  "ensureAuthPackages dk tree =
     (if \<not> treeExists dk tree ''package.json'' then Inr (None, tree)
      else
        (case treeRead dk tree ''package.json'' of
           None \<Rightarrow> Inl (TypeError ''cannot read properties of null'')
         | Some text \<Rightarrow>
             (case jsonParse dk text of
                Inl e \<Rightarrow> Inl e
              | Inr packageJson \<Rightarrow>
                  (case getProp packageJson ''name'' of
                     Inl e \<Rightarrow> Inl e
                   | Inr name \<Rightarrow>
                       if name = Some (JString ''analog-tools'')
                          \<or> name = Some (JString ''@analog-tools/root'')
                       then Inr (None, tree)
                       else
                         (let dependencies = (case getProp packageJson ''dependencies'' of
                                                Inl e \<Rightarrow> None | Inr v \<Rightarrow> v);
                              devDependencies = (case getProp packageJson ''devDependencies'' of
                                                   Inl e \<Rightarrow> None | Inr v \<Rightarrow> v);
                              missingPackages =
                                filter (\<lambda>pkg. \<not> (inSection dependencies pkg
                                                \<or> inSection devDependencies pkg))
                                  requiredPackages
                          in if length missingPackages = 0 then Inr (None, tree)
                             else
                               (let version = getGeneratorVersion dk tree;
                                    deps = map (\<lambda>pkg. (pkg, version)) missingPackages
                                in Inr (Some (InstallPackagesTask deps),
                                        addDependenciesToPackageJson dk tree deps [])))))))"

subsection \<open>updateAppConfig\<close>

definition authImport :: string where
  "authImport =
     ''import { authInterceptor, provideAuthClient } from '' @ [squote]
     @ ''@analog-tools/auth/angular'' @ [squote] @ '';\<newline>''"

text \<open>
  Lines 132 to 144: the import line is put after the first match of the import pattern;
  without a match the text stays as it is.
\<close>

definition addAuthImport :: "string \<Rightarrow> string" where
  "addAuthImport content =
     (case regexSearch matchImports 0 content of
        None \<Rightarrow> content
      | Some (index, len) \<Rightarrow>
          (let insertPosition = index + len
           in take insertPosition content @ authImport @ drop insertPosition content))"

text \<open>
  Lines 172 to 213, on the text that holds a providers list. The pattern
  \<^verbatim>\<open>/providers:\s*\[([\s\S]*?)\]/\<close> of line 147 matches as
  \<^verbatim>\<open>/providers:\s*\[([^\]]*)\]/\<close> does: the lazy class stops at the first closing bracket.
\<close>

definition addInterceptor :: "string \<Rightarrow> string" where
  "addInterceptor content =
     (case regexSearch withInterceptorsRegex 0 content of
        Some (i, n, caps) \<Rightarrow>
          (let interceptorsContent = captureText caps 1
           in if \<not> strIncludes interceptorsContent ''authInterceptor''
              then (let updatedInterceptors =
                          (if trim interceptorsContent \<noteq> []
                           then trim interceptorsContent @ '', authInterceptor''
                           else ''authInterceptor'')
                    in regexReplace withInterceptorsRegex content
                         (''withInterceptors(['' @ updatedInterceptors @ ''])''))
              else content)
      | None \<Rightarrow>
          (case regexSearch provideHttpClientRegex 0 content of
             None \<Rightarrow> content
           | Some (i, n, caps) \<Rightarrow>
               (let httpClientContent = captureText caps 1
                in if strIncludes httpClientContent ''withFetch()''
                   then (let content1 =
                               regexReplace provideHttpClientRegex content
                                 (''provideHttpClient(\<newline>      withFetch(),\<newline>''
                                  @ ''      withInterceptors([authInterceptor])\<newline>    )'')
                         in if \<not> strIncludes content1 ''withInterceptors''
                            then regexReplaceFn importHttpRegex
                                   (regexReplace fromHttpRegex content1
                                      (''from '' @ [squote] @ ''@angular/common/http'' @ [squote]))
                                   (\<lambda>match caps'.
                                      if \<not> strIncludes (captureText caps' 1) ''withInterceptors''
                                      then stringReplace match ''}'' '', withInterceptors}''
                                      else match)
                            else content1)
                   else content)))"

definition addProviders :: "string \<Rightarrow> string" where
  "addProviders content =
     (case regexSearch (matchArrayProp ''providers:'') 0 content of
        None \<Rightarrow> content
      | Some (i, n, providersContent) \<Rightarrow>
          addInterceptor
            (if \<not> strIncludes providersContent ''provideAuthClient''
             then (let updatedProviders =
                         regexReplace lastProviderRegex providersContent
                           '',\<newline>    $1,\<newline>    provideAuthClient(),''
                   in if updatedProviders = providersContent
                      then regexReplace (noGroups (matchLitWsChar ''providers:'' (CHR ''[''))) content
                             ''providers: [\<newline>    provideAuthClient(),''
                      else stringReplace content providersContent updatedProviders)
             else content))"

text \<open>
  \<^verbatim>\<open>updateAppConfig(tree, appConfigPath)\<close>: the tree after the call, or the exception of
  \<^verbatim>\<open>tree.read(...)!.toString\<close> on \<^verbatim>\<open>null\<close>.
\<close>

definition updateAppConfig :: "'t devkit \<Rightarrow> 't \<Rightarrow> string \<Rightarrow> exn + 't" where
  "updateAppConfig dk tree appConfigPath =
     (if \<not> treeExists dk tree appConfigPath then Inr tree
      else
        (case treeRead dk tree appConfigPath of
           None \<Rightarrow> Inl (TypeError ''cannot read properties of null'')
         | Some content \<Rightarrow>
             if strIncludes content ''@analog-tools/auth/angular'' then Inr tree
             else Inr (treeWrite dk tree appConfigPath (addProviders (addAuthImport content)))))"

subsection \<open>updateViteConfig of the init-auth generator\<close>

definition authLiteral :: string where
  "authLiteral = [squote] @ ''@analog-tools/auth'' @ [squote]"

text \<open>
  Lines 248 to 286: the new text of the file, given the match of line 236 (\<open>None\<close> when
  there is none).
\<close>

definition addNoExternal :: "string \<Rightarrow> (nat \<times> nat \<times> string option list) option \<Rightarrow> string" where
  "addNoExternal content match =
     (case match of
        Some (i, n, caps) \<Rightarrow>
          (let noExternalContent = captureText caps 1;
               items = filter (\<lambda>item. 0 < length item) (map trim (splitComma noExternalContent));
               itemsStr = join '', '' (items @ [authLiteral])
           in regexReplace noExternalRegex content
                (''ssr: {\<newline>      noExternal: ['' @ itemsStr @ '']''))
      | None \<Rightarrow>
          if strIncludes content ''ssr:''
          then regexReplace (noGroups (matchLitWsChar ''ssr:'' (CHR ''{''))) content
                 (''ssr: {\<newline>      noExternal: ['' @ authLiteral @ ''],'')
          else
            (case regexSearch (matchLitWsChar ''build:'' (CHR ''{'')) 0 content of
               None \<Rightarrow> content
             | Some (insertPos, len) \<Rightarrow>
                 take insertPos content
                 @ ''\<newline>    ssr: {\<newline>      noExternal: ['' @ authLiteral
                 @ ''],\<newline>    },\<newline>\<newline>    ''
                 @ drop insertPos content))"

definition updateViteConfig_initAuth :: "'t devkit \<Rightarrow> 't \<Rightarrow> string \<Rightarrow> exn + 't" where
  "updateViteConfig_initAuth dk tree viteConfigPath =
     (if \<not> treeExists dk tree viteConfigPath then Inr tree
      else
        (case treeRead dk tree viteConfigPath of
           None \<Rightarrow> Inl (TypeError ''cannot read properties of null'')
         | Some content \<Rightarrow>
             (let match = regexSearch noExternalRegex 0 content
              in if (case match of
                       None \<Rightarrow> False
                     | Some (i, n, caps) \<Rightarrow>
                         strIncludes (captureText caps 1) authLiteral
                         \<or> strIncludes (captureText caps 1)
                              ([dquote] @ ''@analog-tools/auth'' @ [dquote]))
                 then Inr tree
                 else Inr (treeWrite dk tree viteConfigPath (addNoExternal content match)))))"

text \<open>
  \<^verbatim>\<open>possiblePaths.find((p) => tree.exists(p)) || null\<close>: an empty path counts as false.
\<close>

definition findViteConfigPath_initAuth :: "'t devkit \<Rightarrow> 't \<Rightarrow> string \<Rightarrow> string option" where
  "findViteConfigPath_initAuth dk tree projectRoot =
     (case find (treeExists dk tree)
             [joinPathFragments dk [projectRoot, ''vite.config.ts''],
              joinPathFragments dk [projectRoot, ''vite.config.mts''],
              joinPathFragments dk [projectRoot, ''vite.config.js''],
              joinPathFragments dk [projectRoot, ''vite.config.mjs'']] of
        None \<Rightarrow> None
      | Some p \<Rightarrow> if p = [] then None else Some p)"

subsection \<open>initAuthGenerator\<close>

record initAuthGeneratorSchema =
  project :: string

definition authConfigContent :: string where
  "authConfigContent =
     ''import { AnalogAuthConfig } from '' @ [squote] @ ''@analog-tools/auth'' @ [squote]
     @ '';\<newline>'' @ ''\<newline>''
     @ ''export const authConfig: AnalogAuthConfig = {\<newline>''
     @ ''  issuer: process.env['' @ [squote] @ ''AUTH_ISSUER'' @ [squote] @ ''] || ''
     @ [squote] @ [squote] @ '',\<newline>'' @ ''  clientId: process.env['' @ [squote]
     @ ''AUTH_CLIENT_ID'' @ [squote] @ ''] || '' @ [squote] @ [squote] @ '',\<newline>''
     @ ''  clientSecret: process.env['' @ [squote] @ ''AUTH_CLIENT_SECRET'' @ [squote]
     @ ''] || '' @ [squote] @ [squote] @ '',\<newline>'' @ ''  audience: process.env[''
     @ [squote] @ ''AUTH_AUDIENCE'' @ [squote] @ ''] || '' @ [squote] @ [squote]
     @ '',\<newline>'' @ ''  scope: process.env['' @ [squote] @ ''AUTH_SCOPE'' @ [squote]
     @ ''] || '' @ [squote] @ ''openid profile email'' @ [squote] @ '',\<newline>''
     @ ''  callbackUri: process.env['' @ [squote] @ ''AUTH_CALLBACK_URL'' @ [squote]
     @ ''] || '' @ [squote] @ [squote] @ '',\<newline>''
     @ ''  unprotectedRoutes: [],\<newline>'' @ ''\<newline>''
     @ ''  sessionStorage: {\<newline>'' @ ''    type: '' @ [squote] @ ''redis'' @ [squote]
     @ '',\<newline>'' @ ''    config: {\<newline>'' @ ''      url: process.env[''
     @ [squote] @ ''REDIS_URL'' @ [squote] @ ''] || '' @ [squote]
     @ ''redis://localhost:6379'' @ [squote] @ '',\<newline>''
     @ ''      sessionSecret: process.env['' @ [squote] @ ''SESSION_SECRET'' @ [squote]
     @ ''] || '' @ [squote] @ ''default-dev-secret'' @ [squote] @ '',\<newline>''
     @ ''      ttl: 86400, // 24 hours\<newline>'' @ ''    },\<newline>''
     @ ''  },\<newline>'' @ ''};\<newline>''"

definition authMiddlewareContent :: string where
  "authMiddlewareContent =
     ''import { useAnalogAuth } from '' @ [squote] @ ''@analog-tools/auth'' @ [squote]
     @ '';\<newline>'' @ ''import { defineEventHandler, H3Event } from '' @ [squote]
     @ ''h3'' @ [squote] @ '';\<newline>'' @ ''import { authConfig } from '' @ [squote]
     @ ''../../auth.config'' @ [squote] @ '';\<newline>'' @ ''\<newline>''
     @ ''/**\<newline>''
     @ '' * Authentication middleware for protected API routes\<newline>''
     @ '' * To be used with Analog.js middleware structure\<newline>'' @ '' */\<newline>''
     @ ''export default defineEventHandler(async (event: H3Event) => {\<newline>''
     @ ''  return useAnalogAuth(authConfig, event);\<newline>'' @ ''});\<newline>''"

text \<open>
  Lines 321 to 408, after the check of the project type. An exception ends the run; the
  tree then holds the writes made before it. The result is the install task
  (\<open>None\<close> for \<^verbatim>\<open>null\<close>).
\<close>

definition initAuthSteps ::
  "'t devkit \<Rightarrow> 't \<Rightarrow> initAuthGeneratorSchema \<Rightarrow> projectConfiguration
     \<Rightarrow> (exn + generatorCallback option) \<times> 't" where
  "initAuthSteps dk tree options projectConfig =
     (let projectRoot = root projectConfig
      in case ensureAuthPackages dk tree of
           Inl e \<Rightarrow> (Inl e, tree)
         | Inr (installTask, tree1) \<Rightarrow>
             (let authConfigPath = joinPathFragments dk [projectRoot, ''src/auth.config.ts''];
                  tree2 = treeWrite dk tree1 authConfigPath authConfigContent;
                  middlewarePath = joinPathFragments dk [projectRoot, ''src/server/middleware''];
                  authMiddlewarePath = joinPathFragments dk [middlewarePath, ''auth.ts''];
                  tree3 = treeWrite dk tree2 authMiddlewarePath authMiddlewareContent;
                  appConfigPath = joinPathFragments dk [projectRoot, ''src/app/app.config.ts'']
              in case updateAppConfig dk tree3 appConfigPath of
                   Inl e \<Rightarrow> (Inl e, tree3)
                 | Inr tree4 \<Rightarrow>
                     (case (case findViteConfigPath_initAuth dk tree4 projectRoot of
                              Some viteConfigPath \<Rightarrow>
                                updateViteConfig_initAuth dk tree4 viteConfigPath
                            | None \<Rightarrow> Inr tree4) of
                        Inl e \<Rightarrow> (Inl e, tree4)
                      | Inr tree5 \<Rightarrow>
                          (case formatFiles dk tree5 of
                             Inl e \<Rightarrow> (Inl e, tree5)
                           | Inr tree6 \<Rightarrow> (Inr installTask, tree6)))))"

text \<open>
  \<^verbatim>\<open>initAuthGenerator(tree, options)\<close>: the result (the exception, for a promise that is
  rejected) and the tree after the run.
\<close>

definition initAuthGenerator ::
  "'t devkit \<Rightarrow> 't \<Rightarrow> initAuthGeneratorSchema
     \<Rightarrow> (exn + generatorCallback option) \<times> 't" where
  "initAuthGenerator dk tree options =
     (case readProjectConfiguration dk tree (project options) of
        Inl e \<Rightarrow> (Inl e, tree)
      | Inr projectConfig \<Rightarrow>
          if projectType projectConfig \<noteq> Some ''application''
          then (Inl (Error (''Project '' @ [dquote] @ project options @ [dquote]
                            @ '' must be an application. Found '' @ [dquote]
                            @ (case projectType projectConfig of
                                 Some t \<Rightarrow> t | None \<Rightarrow> ''unknown'')
                            @ [dquote] @ ''.'')),
                tree)
          else initAuthSteps dk tree options projectConfig)"

text \<open>
  A tree for the concrete runs: the list of its files with their texts. Only the
  functions that the runs call do something.
\<close>

definition listDevkit :: "(string \<Rightarrow> exn + projectConfiguration) \<Rightarrow> (string \<times> string) list devkit" where
  "listDevkit projects =
     \<lparr> treeExists = (\<lambda>t p. map_of t p \<noteq> None),
       treeChildren = (\<lambda>t p. []),
       treeRead = (\<lambda>t p. map_of t p),
       treeWrite = (\<lambda>t p c. (p, c) # filter (\<lambda>(q, d). q \<noteq> p) t),
       readJson = (\<lambda>t p. Inl (Error ''not read'')),
       readNxJson = (\<lambda>t. Inr JNull),
       readProjectConfiguration = (\<lambda>t name. projects name),
       addDependenciesToPackageJson = (\<lambda>t deps devDeps. t),
       formatFiles = (\<lambda>t. Inr t),
       joinPathFragments = joinSegments,
       jsonParse = (\<lambda>text. Inl (Error ''not parsed'')) \<rparr>"

text \<open>
  A workspace with one package, \<^verbatim>\<open>packages/auth\<close>, and no \<^verbatim>\<open>npmScope\<close> in
  \<^verbatim>\<open>nx.json\<close>, and three projects.
\<close>

definition exampleWorkspace :: "unit devkit" where
  "exampleWorkspace =
     \<lparr> treeExists = (\<lambda>t p. p = ''packages'' \<or> p = ''packages/auth/package.json''),
       treeChildren = (\<lambda>t p. if p = ''packages'' then [''auth''] else []),
       treeRead = (\<lambda>t p. None),
       treeWrite = (\<lambda>t p c. t),
       readJson = (\<lambda>t p. if p = ''packages/auth/package.json''
                           then Inr (JObject [(''name'', JString ''@analog-tools/auth'')])
                           else Inl (Error ''cannot read file'')),
       readNxJson = (\<lambda>t. Inr JNull),
       readProjectConfiguration = (\<lambda>t name. Inl (Error ''cannot find project'')),
       addDependenciesToPackageJson = (\<lambda>t deps devDeps. t),
       formatFiles = (\<lambda>t. Inr t),
       joinPathFragments = joinSegments,
       jsonParse = (\<lambda>text. Inl (Error ''not parsed'')) \<rparr>"

definition exampleProjects :: "string \<Rightarrow> exn + projectConfiguration" where
  "exampleProjects name =
     (if name = ''web'' then Inr \<lparr> root = ''apps/web'', projectType = Some ''application'' \<rparr>
      else if name = ''ui'' then Inr \<lparr> root = ''libs/ui'', projectType = Some ''library'' \<rparr>
      else if name = ''tools'' then Inr \<lparr> root = ''tools'', projectType = None \<rparr>
      else Inl (Error ''cannot find project''))"

section \<open>Notions used in the proofs on updateViteConfig\<close>



text \<open>
  A text without quote, parenthesis or backslash leaves the state of the scan as it is;
  \<open>lastOr\<close> is the previous character after a text.
\<close>

definition neutral :: "string \<Rightarrow> bool" where
  "neutral xs \<longleftrightarrow> (\<forall>c\<in>set xs. \<not> isQuote c \<and> c \<noteq> CHR ''('' \<and> c \<noteq> CHR '')'' \<and> c \<noteq> bslash)"





section \<open>Properties of the library generator's updateViteConfig\<close>

subsection \<open>Marker not found, parentheses not balanced\<close>

text \<open>
  Claim C4. When the text has no match of \<^verbatim>\<open>/analog\s*\(/\<close>, or the depth counter of the
  scan from the opening parenthesis never returns to zero before the end of the text
  (\<open>findClosingParen\<close> is \<open>None\<close>), \<open>updateViteConfig\<close> returns the text it was given,
  whatever the library root and the options are: no splice is made.
\<close>

theorem updateViteConfig_unchanged_when_not_found:
  assumes "analogCallRegex content = None
           \<or> (\<exists>index len. analogCallRegex content = Some (index, len)
                 \<and> findClosingParen content (index + len) = None)"
  shows "updateViteConfig pathJoin content libSrcRoot options = content"
  using assms by (auto simp: updateViteConfig_def Let_def)

theorem updateViteConfig_unchanged_when_not_found_witness:
  "analogCallRegex ''plugins: [analog({ a: (1 })]'' = Some (10, 7)
   \<and> findClosingParen ''plugins: [analog({ a: (1 })]'' 17 = None
   \<and> updateViteConfig joinSegments ''plugins: [analog({ a: (1 })]'' ''libs/x/src''
         \<lparr> addPages = None, addApi = None \<rparr> = ''plugins: [analog({ a: (1 })]''
   \<and> analogCallRegex ''plugins: [react()]'' = None
   \<and> updateViteConfig joinSegments ''plugins: [react()]'' ''libs/x/src''
         \<lparr> addPages = None, addApi = None \<rparr> = ''plugins: [react()]''"
proof -
  have a: "analogCallRegex ''plugins: [analog({ a: (1 })]'' = Some (10, 7)" by code_simp
  have b: "findClosingParen ''plugins: [analog({ a: (1 })]'' (10 + 7) = None" by code_simp
  have c: "analogCallRegex ''plugins: [react()]'' = None" by code_simp
  from a b c
    updateViteConfig_unchanged_when_not_found
      [of "''plugins: [analog({ a: (1 })]''" joinSegments "''libs/x/src''"
          "\<lparr> addPages = None, addApi = None \<rparr>"]
    updateViteConfig_unchanged_when_not_found
      [of "''plugins: [react()]''" joinSegments "''libs/x/src''"
          "\<lparr> addPages = None, addApi = None \<rparr>"]
  show ?thesis by simp
qed

subsection \<open>A call without options\<close>



section \<open>Properties of getWorkspaceScope\<close>

lemma scopeOfName_at: "scopeOfName name = Some scope \<Longrightarrow> startsWith scope ''@''"
proof (cases name)
  case None
  then show "scopeOfName name = Some scope \<Longrightarrow> ?thesis" by simp
next
  case (Some j)
  assume h: "scopeOfName name = Some scope"
  show ?thesis
  proof (cases j)
    case (JString nm)
    with Some h have a: "startsWith nm ''@''" and b: "strIncludes nm ''/''"
      and c: "scope = substring nm 0 (indexOfChar nm (CHR ''/''))"
      by (auto split: if_splits)
    from a obtain r where nm: "nm = CHR ''@'' # r"
      by (cases nm) (auto simp: startsWith_def)
    have "0 < indexOfChar nm (CHR ''/'')" using nm by (simp add: indexOfChar_def)
    with c nm show ?thesis
      by (cases "indexOfChar nm (CHR ''/'')") (auto simp: substring_def startsWith_def Let_def min_def)
  qed (use Some h in auto)
qed

lemma scanChildren_at:
  "scanChildren dk tree dir children = Some scope \<Longrightarrow> startsWith scope ''@''"
  by (induction children)
     (auto simp: Let_def split: if_splits sum.splits option.splits dest: scopeOfName_at)

lemma scanPackageDirs_at:
  "scanPackageDirs dk tree dirs = Some scope \<Longrightarrow> startsWith scope ''@''"
  by (induction dirs) (auto split: if_splits option.splits dest: scanChildren_at)

lemma scopeFromNxJson_at: "scopeFromNxJson dk tree = Some scope \<Longrightarrow> startsWith scope ''@''"
  by (auto simp: scopeFromNxJson_def startsWith_def split: sum.splits option.splits if_splits)

lemma scopeFromRootPackage_at:
  "scopeFromRootPackage dk tree = Some scope \<Longrightarrow> startsWith scope ''@''"
  by (auto simp: scopeFromRootPackage_def split: sum.splits if_splits dest: scopeOfName_at)

text \<open>
  Claim C9. Whenever \<open>getWorkspaceScope\<close> returns a value other than \<^verbatim>\<open>null\<close>, the value
  starts with \<^verbatim>\<open>@\<close>: the scope of \<^verbatim>\<open>nx.json\<close> gets the character when it lacks it, and
  a scope taken from a package name is the part of a name that starts with \<^verbatim>\<open>@\<close>, up to
  its first slash. This holds for every tree and whatever the devkit functions return or
  throw.
\<close>

theorem getWorkspaceScope_starts_with_at:
  assumes "getWorkspaceScope dk tree = Some scope"
  shows "startsWith scope ''@''"
proof (cases "scopeFromNxJson dk tree")
  case (Some s)
  with assms have "scopeFromNxJson dk tree = Some scope"
    by (simp add: getWorkspaceScope_def)
  then show ?thesis by (rule scopeFromNxJson_at)
next
  case None
  note nx = None
  show ?thesis
  proof (cases "scanPackageDirs dk tree [''packages'', ''libs'']")
    case (Some s)
    with assms nx have "scanPackageDirs dk tree [''packages'', ''libs''] = Some scope"
      by (simp add: getWorkspaceScope_def)
    then show ?thesis by (rule scanPackageDirs_at)
  next
    case None
    with assms nx have "scopeFromRootPackage dk tree = Some scope"
      by (simp add: getWorkspaceScope_def)
    then show ?thesis by (rule scopeFromRootPackage_at)
  qed
qed

theorem getWorkspaceScope_starts_with_at_witness:
  "getWorkspaceScope exampleWorkspace () = Some ''@analog-tools''
   \<and> startsWith ''@analog-tools'' ''@''"
proof -
  have a: "getWorkspaceScope exampleWorkspace () = Some ''@analog-tools''"
    by (simp add: getWorkspaceScope_def scopeFromNxJson_def exampleWorkspace_def startsWith_def
        substring_def indexOfChar_def Let_def)
  from a getWorkspaceScope_starts_with_at [OF a] show ?thesis by simp
qed

section \<open>Properties of initAuthGenerator\<close>

text \<open>
  Claim C10. When the configuration of the project can be read and its type is not
  \<^verbatim>\<open>application\<close> (a library, or no type at all), \<open>initAuthGenerator\<close> ends with the
  error of line 314 and the tree is the one it was given: the check comes before every
  write. When the type is \<^verbatim>\<open>application\<close> the check does not throw and the
  run goes on with the steps of lines 321 to 408.
\<close>

theorem initAuthGenerator_rejects_non_application:
  assumes "readProjectConfiguration dk tree (project options) = Inr projectConfig"
  shows "(projectType projectConfig \<noteq> Some ''application'' \<longrightarrow>
            initAuthGenerator dk tree options =
              (Inl (Error (''Project '' @ [dquote] @ project options @ [dquote]
                           @ '' must be an application. Found '' @ [dquote]
                           @ (case projectType projectConfig of
                                Some t \<Rightarrow> t | None \<Rightarrow> ''unknown'')
                           @ [dquote] @ ''.'')),
               tree))
         \<and> (projectType projectConfig = Some ''application'' \<longrightarrow>
              initAuthGenerator dk tree options = initAuthSteps dk tree options projectConfig)"
  using assms by (simp add: initAuthGenerator_def)

theorem initAuthGenerator_rejects_non_application_witness:
  "initAuthGenerator (listDevkit exampleProjects) [(''libs/ui/vite.config.ts'', ''x'')]
      \<lparr> project = ''ui'' \<rparr>
    = (Inl (Error (''Project '' @ [dquote] @ ''ui'' @ [dquote]
                   @ '' must be an application. Found '' @ [dquote] @ ''library'' @ [dquote]
                   @ ''.'')),
       [(''libs/ui/vite.config.ts'', ''x'')])
   \<and> initAuthGenerator (listDevkit exampleProjects) [] \<lparr> project = ''tools'' \<rparr>
    = (Inl (Error (''Project '' @ [dquote] @ ''tools'' @ [dquote]
                   @ '' must be an application. Found '' @ [dquote] @ ''unknown'' @ [dquote]
                   @ ''.'')),
       [])
   \<and> initAuthGenerator (listDevkit exampleProjects) [] \<lparr> project = ''web'' \<rparr>
    = initAuthSteps (listDevkit exampleProjects) [] \<lparr> project = ''web'' \<rparr>
        \<lparr> root = ''apps/web'', projectType = Some ''application'' \<rparr>"
proof -
  have ui: "readProjectConfiguration (listDevkit exampleProjects)
              [(''libs/ui/vite.config.ts'', ''x'')] (project \<lparr> project = ''ui'' \<rparr>)
            = Inr \<lparr> root = ''libs/ui'', projectType = Some ''library'' \<rparr>"
    by (simp add: listDevkit_def exampleProjects_def)
  have tools: "readProjectConfiguration (listDevkit exampleProjects) []
                 (project \<lparr> project = ''tools'' \<rparr>)
               = Inr \<lparr> root = ''tools'', projectType = None \<rparr>"
    by (simp add: listDevkit_def exampleProjects_def)
  have web: "readProjectConfiguration (listDevkit exampleProjects) []
               (project \<lparr> project = ''web'' \<rparr>)
             = Inr \<lparr> root = ''apps/web'', projectType = Some ''application'' \<rparr>"
    by (simp add: listDevkit_def exampleProjects_def)
  from initAuthGenerator_rejects_non_application [OF ui]
       initAuthGenerator_rejects_non_application [OF tools]
       initAuthGenerator_rejects_non_application [OF web]
  show ?thesis by simp
qed

section \<open>Runs of the library generator's updateViteConfig that the specification excludes\<close>

text \<open>
  Claim C5 asks that a later edit never discards the text of an earlier one, so that a
  call without \<^verbatim>\<open>liveReload\<close> always ends with that key. Line 234 appends to the
  existing \<^verbatim>\<open>additionalPagesDirs\<close> array in \<^verbatim>\<open>analogContent\<close>, the text before the
  key was added, and the key is lost: the first run below, for a call that has the array
  and no \<^verbatim>\<open>liveReload\<close>, returns a text without the key. The second run, with the pages
  not requested, adds the key to the same call. The third run is the same case for
  \<^verbatim>\<open>additionalAPIDirs\<close>, where line 255 reads \<^verbatim>\<open>newAnalogContent\<close>: the key is kept.
\<close>

theorem updateViteConfig_pages_append_loses_liveReload:
  "updateViteConfig joinSegments
     (''analog({ additionalPagesDirs: ['' @ [squote] @ ''a'' @ [squote] @ ''] })'')
     ''libs/x/src'' \<lparr> addPages = Some True, addApi = Some False \<rparr>
   = ''analog({ additionalPagesDirs: ['' @ [squote] @ ''a'' @ [squote] @ '', '' @ [squote]
     @ ''libs/x/src/pages'' @ [squote] @ ''] })''
   \<and> updateViteConfig joinSegments
     (''analog({ additionalPagesDirs: ['' @ [squote] @ ''a'' @ [squote] @ ''] })'')
     ''libs/x/src'' \<lparr> addPages = Some False, addApi = Some False \<rparr>
   = ''analog({\<newline> additionalPagesDirs: ['' @ [squote] @ ''a'' @ [squote]
     @ ''] ,\<newline>        liveReload: true\<newline>      })''
   \<and> updateViteConfig joinSegments
     (''analog({ additionalAPIDirs: ['' @ [squote] @ ''a'' @ [squote] @ ''] })'')
     ''libs/x/src'' \<lparr> addPages = Some False, addApi = Some True \<rparr>
   = ''analog({\<newline> additionalAPIDirs: ['' @ [squote] @ ''a'' @ [squote] @ '', '' @ [squote]
     @ ''libs/x/src/backend/api'' @ [squote] @ ''] ,\<newline>        liveReload: true\<newline>      })''"
  by code_simp

text \<open>
  Claim C3 asks that the scan never counts a parenthesis inside a string literal or a
  comment. The scan knows string literals only. In the first text the call holds a
  comment with a closing parenthesis, at index 11; the scan stops there and not at the
  closing parenthesis of the call, at index 36, and the splice cuts the comment. In the
  second text the string literal ends with an escaped backslash; the scan takes the
  closing quote for an escaped one, never leaves the string and reports no closing
  parenthesis, while \<open>removeComments\<close> reads the same literal to its end.
\<close>

theorem findClosingParen_counts_parenthesis_in_comment:
  "findClosingParen ''analog(/* :) */ { liveReload: true })'' 7 = Some 11
   \<and> ''analog(/* :) */ { liveReload: true })'' ! 36 = CHR '')''
   \<and> length ''analog(/* :) */ { liveReload: true })'' = 37
   \<and> updateViteConfig joinSegments ''analog(/* :) */ { liveReload: true })'' ''libs/x/src''
         \<lparr> addPages = Some False, addApi = Some False \<rparr>
       = ''analog({\<newline>/* :,\<newline>        liveReload: true\<newline>      }) */ { liveReload: true })''
   \<and> findClosingParen
         (''analog({ a: '' @ [squote] @ ''C:'' @ [bslash, bslash] @ [squote] @ '' })'') 7 = None
   \<and> removeComments (''{ a: '' @ [squote] @ ''C:'' @ [bslash, bslash] @ [squote] @ '' }'')
       = ''{ a: '' @ [squote] @ ''C:'' @ [bslash, bslash] @ [squote] @ '' }''"
  by code_simp

text \<open>
  Claim C6 asks that a call whose argument list is a comment is classified as empty and
  gets the new options, as the call without arguments does. The classification of the
  argument text does so (the second fact), but the scan before it takes the apostrophe of
  the comment for the start of a string literal and finds no closing parenthesis: the
  text is returned as it was.
\<close>

theorem updateViteConfig_comment_with_apostrophe_unchanged:
  "updateViteConfig joinSegments (''analog(/* don'' @ [squote] @ ''t */)'') ''libs/x/src''
     \<lparr> addPages = Some False, addApi = Some False \<rparr>
   = ''analog(/* don'' @ [squote] @ ''t */)''
   \<and> isEmpty (''/* don'' @ [squote] @ ''t */'')
   \<and> findClosingParen (''analog(/* don'' @ [squote] @ ''t */)'') 7 = None
   \<and> updateViteConfig joinSegments ''analog()'' ''libs/x/src''
         \<lparr> addPages = Some False, addApi = Some False \<rparr>
       = ''analog({\<newline>        liveReload: true\<newline>      })''
   \<and> updateViteConfig joinSegments ''analog(/* */)'' ''libs/x/src''
         \<lparr> addPages = Some False, addApi = Some False \<rparr>
       = ''analog({\<newline>        liveReload: true\<newline>      })''"
  by code_simp

section \<open>Runs of updateAppConfig that the specification excludes\<close>

text \<open>
  Claim C8 asks that a file without an import block gets the import line at position 0.
  Lines 136 to 144 insert the line only when the import pattern matches; a file without
  a match keeps its text through this step, and the later steps add
  \<^verbatim>\<open>provideAuthClient()\<close> to the providers without the import. The last fact is the file
  that \<open>updateAppConfig\<close> writes.
\<close>

theorem updateAppConfig_no_import_block_no_import:
  "addAuthImport ''export const appConfig = { providers: [] };\<newline>''
   = ''export const appConfig = { providers: [] };\<newline>''
   \<and> updateAppConfig (listDevkit exampleProjects)
         [(''src/app/app.config.ts'', ''export const appConfig = { providers: [] };\<newline>'')]
         ''src/app/app.config.ts''
       = Inr [(''src/app/app.config.ts'',
               ''export const appConfig = { providers: [\<newline>    provideAuthClient(),] };\<newline>'')]"
  by code_simp

section \<open>Lemmas for the second run of the library generator's updateViteConfig\<close>

subsection \<open>Lemmas on the search\<close>

lemma regexSearch_shift:
  "regexSearch m k s =
     (case regexSearch m 0 s of None \<Rightarrow> None | Some (i, r) \<Rightarrow> Some (i + k, r))"
proof (induction s arbitrary: k)
  case Nil
  show ?case by (simp split: option.splits)
next
  case (Cons c cs)
  show ?case
  proof (cases "m (c # cs)")
    case (Some r)
    then show ?thesis by simp
  next
    case None
    then show ?thesis
      using Cons [of "Suc k"] Cons [of "Suc 0"]
      by (cases "regexSearch m 0 cs") auto
  qed
qed

lemma regexSearch_SomeD:
  assumes "regexSearch m 0 s = Some (i, r)"
  shows "i \<le> length s \<and> m (drop i s) = Some r \<and> (\<forall>j<i. m (drop j s) = None)"
  using assms
proof (induction s arbitrary: i)
  case Nil
  then show ?case by (auto split: option.splits)
next
  case (Cons c cs)
  show ?case
  proof (cases "m (c # cs)")
    case (Some r')
    with Cons.prems show ?thesis by simp
  next
    case None
    with Cons.prems have "regexSearch m (Suc 0) cs = Some (i, r)" by simp
    then obtain i' where i': "regexSearch m 0 cs = Some (i', r)" "i = Suc i'"
      by (subst (asm) regexSearch_shift) (auto split: option.splits prod.splits)
    from Cons.IH [OF i'(1)] None i'(2) show ?thesis
      by (auto simp: less_Suc_eq_0_disj)
  qed
qed



lemma regexSearch_NoneI:
  assumes "\<forall>j\<le>length s. m (drop j s) = None"
  shows "regexSearch m 0 s = None"
proof (cases "regexSearch m 0 s")
  case None then show ?thesis .
next
  case (Some p)
  obtain i r where "p = (i, r)" by (cases p)
  with Some regexSearch_SomeD [of m s i r] assms show ?thesis by auto
qed

subsection \<open>Lemmas on the pattern of a literal, white space and a character\<close>






subsection \<open>Lemmas on the scan for the closing parenthesis\<close>














subsection \<open>Lemmas on trim, substring and the outer braces\<close>







lemma neutral_append [simp]: "neutral (xs @ ys) \<longleftrightarrow> neutral xs \<and> neutral ys"
  by (auto simp: neutral_def)



subsection \<open>Lemmas on the search for a text\<close>




subsection \<open>Lemmas on the comment remover\<close>






subsection \<open>The second run of updateViteConfig\<close>





subsection \<open>The first run of updateViteConfig\<close>


subsection \<open>The three texts that a run without directories puts into the call\<close>













subsection \<open>Running updateViteConfig twice\<close>




end
